theory Spec2Isabelle
  imports Main "HOL-Library.Sublist"
begin

section \<open>Strings of the source language\<close>

text \<open>
  A Python \<open>str\<close> is modelled as a \<open>string\<close>, a list of characters whose codes are
  the code points \<open>0..255\<close>. The helper functions below are the library functions the
  source calls (\<open>str(int)\<close> inside an f-string, \<open>in\<close>, \<open>str.join\<close>,
  \<open>str.replace\<close>, \<open>str.strip\<close>, \<open>str.split\<close>, \<open>os.path.dirname\<close>,
  \<open>base64.b64encode\<close>).
\<close>

definition sq :: char where
  "sq = CHR 0x27"

definition backslash :: char where
  "backslash = CHR 0x5C"

definition newline :: char where
  "newline = CHR 0x0A"

definition tab :: char where
  "tab = CHR 0x09"

text \<open>\<open>str(n)\<close> for a natural number: its decimal digits.\<close>

fun str_nat :: "nat \<Rightarrow> string" where
  "str_nat n =
     (if n < 10 then [''0123456789'' ! n]
      else str_nat (n div 10) @ [''0123456789'' ! (n mod 10)])"

declare str_nat.simps [simp del]

text \<open>\<open>str(i)\<close> for a Python \<open>int\<close>, as an f-string renders \<open>{offset}\<close>.\<close>

definition str_int :: "int \<Rightarrow> string" where
  "str_int i = (if i < 0 then CHR ''-'' # str_nat (nat (- i)) else str_nat (nat i))"

text \<open>\<open>sub in s\<close>: \<open>sub\<close> occurs in \<open>s\<close> as a contiguous substring.\<close>

fun contains :: "string \<Rightarrow> string \<Rightarrow> bool" where
  "contains sub [] = (sub = [])"
| "contains sub (c # cs) = (prefix sub (c # cs) \<or> contains sub cs)"

text \<open>\<open>sep.join(xs)\<close>.\<close>

fun join :: "string \<Rightarrow> string list \<Rightarrow> string" where
  "join sep [] = []"
| "join sep [x] = x"
| "join sep (x # y # ys) = x @ sep @ join sep (y # ys)"

text \<open>
  \<open>s.replace(old, new)\<close>: every non-overlapping occurrence of \<open>old\<close>, scanning from
  the left, is replaced by \<open>new\<close>; an empty \<open>old\<close> matches before every character and
  at the end.
\<close>

function replace :: "string \<Rightarrow> string \<Rightarrow> string \<Rightarrow> string" where
  "replace old new [] = (if old = [] then new else [])"
| "replace old new (c # cs) =
     (if old = [] then new @ c # replace old new cs
      else if prefix old (c # cs) then new @ replace old new (drop (length old) (c # cs))
      else c # replace old new cs)"
  by pat_completeness auto
termination
  by (relation "measure (\<lambda>(old, new, s). length s)") auto

text \<open>
  \<open>str.isspace\<close> on the code points below 256: the characters \<open>str.strip()\<close> and
  \<open>str.split()\<close> treat as whitespace.
\<close>

definition isspace :: "char \<Rightarrow> bool" where
  "isspace c = (of_char c \<in> {9, 10, 11, 12, 13, 28, 29, 30, 31, 32, 133, 160 :: nat})"

definition strip :: "string \<Rightarrow> string" where
  "strip s = rev (dropWhile isspace (rev (dropWhile isspace s)))"

text \<open>
  \<open>s.split(maxsplit=m)\<close> with no separator, as CPython's \<open>split_whitespace\<close> does it:
  while splits remain, skip whitespace and cut the next run of non-whitespace; what is
  left after the last split, without its leading whitespace, is the final field.
\<close>

fun split_ws :: "nat \<Rightarrow> string \<Rightarrow> string list" where
  "split_ws 0 s = (let r = dropWhile isspace s in if r = [] then [] else [r])"
| "split_ws (Suc m) s =
     (let r = dropWhile isspace s in
      if r = [] then []
      else takeWhile (\<lambda>c. \<not> isspace c) r # split_ws m (dropWhile (\<lambda>c. \<not> isspace c) r))"

text \<open>
  \<open>os.path.dirname(p)\<close> of \<open>posixpath\<close>: the part up to the last slash; trailing
  slashes are removed from it unless it consists of slashes only.
\<close>

definition dirname :: "string \<Rightarrow> string" where
  "dirname p =
     (let head = rev (dropWhile (\<lambda>c. c \<noteq> CHR ''/'') (rev p)) in
      if head \<noteq> [] \<and> head \<noteq> replicate (length head) (CHR ''/'')
      then rev (dropWhile (\<lambda>c. c = CHR ''/'') (rev head))
      else head)"

text \<open>
  \<open>content.encode('utf-8')\<close> on code points below 256: one byte below 128, two bytes
  from 128 on. Bytes are natural numbers below 256.
\<close>

definition utf8_char :: "char \<Rightarrow> nat list" where
  "utf8_char c =
     (let n = of_char c :: nat in
      if n < 128 then [n] else [192 + n div 64, 128 + n mod 64])"

definition utf8_encode :: "string \<Rightarrow> nat list" where
  "utf8_encode s = concat (map utf8_char s)"

text \<open>
  \<open>base64.b64encode(bs).decode('ascii')\<close>: the standard alphabet, three bytes to four
  characters, \<open>=\<close> padding.
\<close>

definition b64_alphabet :: string where
  "b64_alphabet = ''ABCDEFGHIJKLMNOPQRSTUVWXYZabcdefghijklmnopqrstuvwxyz0123456789+/''"

definition b64_char :: "nat \<Rightarrow> char" where
  "b64_char k = b64_alphabet ! k"

fun b64encode :: "nat list \<Rightarrow> string" where
  "b64encode [] = []"
| "b64encode [a] =
     [b64_char (a div 4), b64_char ((a mod 4) * 16), CHR ''='', CHR ''='']"
| "b64encode [a, b] =
     [b64_char (a div 4), b64_char ((a mod 4) * 16 + b div 16),
      b64_char ((b mod 16) * 4), CHR ''='']"
| "b64encode (a # b # c # rest) =
     [b64_char (a div 4), b64_char ((a mod 4) * 16 + b div 16),
      b64_char ((b mod 16) * 4 + c div 64), b64_char (c mod 64)] @ b64encode rest"

section \<open>The command executor\<close>

text \<open>
  \<open>CommandExecutor.execute(cmd, timeout)\<close> is the collaborator the file manager is
  constructed with; it returns the output text and the exit code of the command. It is a
  parameter of the model: a function of the command, the timeout and the state of the
  remote side, returning the result and the new state.
\<close>

type_synonym cmd_result = "string \<times> int"

type_synonym 'st executor = "string \<Rightarrow> int \<Rightarrow> 'st \<Rightarrow> cmd_result \<times> 'st"

text \<open>\<open>_run_command(cmd, timeout=30)\<close>; every call of the source uses the default.\<close>

definition run_command :: "'st executor \<Rightarrow> string \<Rightarrow> 'st \<Rightarrow> cmd_result \<times> 'st" where
  "run_command ex cmd st = ex cmd 30 st"

section \<open>FileManager\<close>

subsection \<open>\<open>read_file\<close>\<close>

definition read_cmd :: "string \<Rightarrow> int option \<Rightarrow> int option \<Rightarrow> string" where
  "read_cmd file_path offset limit =
     (case (offset, limit) of
        (Some off, Some lim) \<Rightarrow>
          ''tail -n +'' @ str_int off @ '' '' @ [sq] @ file_path @ [sq]
            @ '' 2>&1 | head -n '' @ str_int lim @ '' | nl -ba -v '' @ str_int off
      | (None, Some lim) \<Rightarrow>
          ''head -n '' @ str_int lim @ '' '' @ [sq] @ file_path @ [sq] @ '' 2>&1 | nl -ba''
      | (_, None) \<Rightarrow> ''nl -ba '' @ [sq] @ file_path @ [sq] @ '' 2>&1'')"

definition read_file ::
  "'st executor \<Rightarrow> string \<Rightarrow> int option \<Rightarrow> int option \<Rightarrow> 'st \<Rightarrow> (string \<times> bool) \<times> 'st" where
  "read_file ex file_path offset limit st =
     (let ((output, code), st') = run_command ex (read_cmd file_path offset limit) st in
      if contains ''No such file or directory'' output \<or> contains ''cannot open'' output
      then ((''File not found: '' @ file_path, True), st')
      else if code \<noteq> 0 \<and> output \<noteq> []
      then ((''Error reading file: '' @ output, True), st')
      else ((output, False), st'))"

subsection \<open>\<open>write_file\<close>\<close>

definition mkdir_cmd :: "string \<Rightarrow> string" where
  "mkdir_cmd dir_path = ''mkdir -p '' @ [sq] @ dir_path @ [sq]"

definition write_cmd :: "string \<Rightarrow> string \<Rightarrow> string" where
  "write_cmd file_path content =
     ''echo '' @ [sq] @ b64encode (utf8_encode content) @ [sq]
       @ '' | base64 -d > '' @ [sq] @ file_path @ [sq]"

definition write_file ::
  "'st executor \<Rightarrow> string \<Rightarrow> string \<Rightarrow> 'st \<Rightarrow> (string \<times> bool) \<times> 'st" where
  "write_file ex file_path content st =
     (let dir_path = dirname file_path;
          st1 = (if dir_path \<noteq> [] then snd (run_command ex (mkdir_cmd dir_path) st) else st);
          ((output, code), st2) = run_command ex (write_cmd file_path content) st1
      in if code \<noteq> 0 then ((''Error writing file: '' @ output, True), st2)
         else ((''Successfully wrote to '' @ file_path, False), st2))"

subsection \<open>\<open>edit_file\<close>\<close>

definition probe_cmd :: "string \<Rightarrow> string" where
  "probe_cmd file_path =
     ''cp '' @ [sq] @ file_path @ [sq] @ '' '' @ [sq] @ file_path @ ''.bak'' @ [sq] @ '' 2>&1''"

definition backup_cmd :: "string \<Rightarrow> string" where
  "backup_cmd file_path =
     ''cp '' @ [sq] @ file_path @ [sq] @ '' '' @ [sq] @ file_path @ ''.bak'' @ [sq]"

definition cleanup_cmd :: "string \<Rightarrow> string" where
  "cleanup_cmd file_path = ''rm -f '' @ [sq] @ file_path @ ''.bak'' @ [sq]"

definition escape_for_sed :: "string \<Rightarrow> string" where
  "escape_for_sed s0 =
     (let s = replace [backslash] [backslash, backslash] s0;
          s = replace ''/'' [backslash, CHR ''/''] s;
          s = replace ''.'' [backslash, CHR ''.''] s;
          s = replace ''*'' [backslash, CHR ''*''] s;
          s = replace ''['' [backslash, CHR ''[''] s;
          s = replace '']'' [backslash, CHR '']''] s;
          s = replace ''^'' [backslash, CHR ''^''] s;
          s = replace ''$'' [backslash, CHR ''$''] s;
          s = replace ''&'' [backslash, CHR ''&''] s
      in s)"

definition sed_cmd :: "string \<Rightarrow> string \<Rightarrow> string \<Rightarrow> bool \<Rightarrow> string" where
  "sed_cmd file_path escaped_old escaped_new replace_all =
     (if replace_all
      then ''sed -i '' @ [sq] @ ''s/'' @ escaped_old @ ''/'' @ escaped_new @ ''/g'' @ [sq]
             @ '' '' @ [sq] @ file_path @ [sq]
      else ''sed -i '' @ [sq] @ ''0,/'' @ escaped_old @ ''/s//'' @ escaped_new @ ''/'' @ [sq]
             @ '' '' @ [sq] @ file_path @ [sq])"

definition edit_file ::
  "'st executor \<Rightarrow> string \<Rightarrow> string \<Rightarrow> string \<Rightarrow> bool \<Rightarrow> 'st \<Rightarrow> (string \<times> bool) \<times> 'st" where
  "edit_file ex file_path old_string new_string replace_all st =
     (let ((output, code), st1) = run_command ex (probe_cmd file_path) st in
      if contains ''No such file or directory'' output \<or> code \<noteq> 0
      then ((''File not found: '' @ file_path, True), st1)
      else
        let escaped_old = escape_for_sed old_string;
            escaped_new = escape_for_sed new_string;
            st2 = snd (run_command ex (backup_cmd file_path) st1);
            ((output, code), st3) =
               run_command ex (sed_cmd file_path escaped_old escaped_new replace_all) st2;
            st4 = snd (run_command ex (cleanup_cmd file_path) st3)
        in if code \<noteq> 0 then ((''Error editing file: '' @ output, True), st4)
           else ((''Successfully replaced ''
                    @ (if replace_all then ''all occurrences'' else ''first occurrence'')
                    @ '' in '' @ file_path, False), st4))"

subsection \<open>\<open>multi_edit_file\<close>\<close>

text \<open>
  The \<open>for\<close> loop over \<open>enumerate(edits)\<close>: \<open>i\<close> is the index of the next edit and
  \<open>results\<close> the list built so far.
\<close>

fun multi_edit_loop ::
  "'st executor \<Rightarrow> string \<Rightarrow> (string \<times> string \<times> bool) list \<Rightarrow> nat \<Rightarrow> string list \<Rightarrow> 'st
     \<Rightarrow> (string \<times> bool) \<times> 'st" where
  "multi_edit_loop ex file_path [] i results st = ((join [newline] results, False), st)"
| "multi_edit_loop ex file_path ((old_string, new_string, replace_all) # edits) i results st =
     (let ((result, is_error), st') =
             edit_file ex file_path old_string new_string replace_all st in
      if is_error \<and> \<not> contains ''No matches found'' result
      then ((''Error on edit '' @ str_nat (i + 1) @ '': '' @ result, True), st')
      else multi_edit_loop ex file_path edits (i + 1)
             (results @ [''Edit '' @ str_nat (i + 1) @ '': '' @ result]) st')"

definition multi_edit_file ::
  "'st executor \<Rightarrow> string \<Rightarrow> (string \<times> string \<times> bool) list \<Rightarrow> 'st \<Rightarrow> (string \<times> bool) \<times> 'st" where
  "multi_edit_file ex file_path edits st = multi_edit_loop ex file_path edits 0 [] st"

subsection \<open>\<open>get_metadata\<close>\<close>

definition stat_cmd :: "string \<Rightarrow> string" where
  "stat_cmd file_path =
     [newline] @ ''            if [ -e '' @ [sq] @ file_path @ [sq] @ '' ]; then'' @ [newline]
     @ ''                stat -c '%s %Y %U:%G %a' '' @ [sq] @ file_path @ [sq]
     @ '' 2>/dev/null || stat -f '%z %m %Su:%Sg %Lp' '' @ [sq] @ file_path @ [sq] @ [newline]
     @ ''                echo -n ' '' @ [sq] @ [newline]
     @ ''                file -b '' @ [sq] @ file_path @ [sq]
     @ '' 2>/dev/null || echo 'unknown'' @ [sq] @ [newline]
     @ ''            else'' @ [newline]
     @ ''                echo 'not_found'' @ [sq] @ [newline]
     @ ''            fi'' @ [newline]
     @ ''            ''"

text \<open>The body of the loop after the command has run: the block appended for one path.\<close>

definition metadata_block :: "string \<Rightarrow> string \<Rightarrow> string" where
  "metadata_block file_path output =
     (if contains ''not_found'' output then file_path @ '': Not found''
      else
        let parts = split_ws 4 (strip output) in
        if length parts \<ge> 5
        then file_path @ '':'' @ [newline]
               @ ''  Size: '' @ parts ! 0 @ '' bytes'' @ [newline]
               @ ''  Type: '' @ join '' '' (drop 4 parts) @ [newline]
               @ ''  Owner: '' @ parts ! 2 @ [newline]
               @ ''  Permissions: '' @ parts ! 3
        else file_path @ '': Unable to get metadata'')"

fun get_metadata_loop ::
  "'st executor \<Rightarrow> string list \<Rightarrow> string list \<Rightarrow> 'st \<Rightarrow> string list \<times> 'st" where
  "get_metadata_loop ex [] results st = (results, st)"
| "get_metadata_loop ex (file_path # rest) results st =
     (let ((output, _), st') = run_command ex (stat_cmd file_path) st in
      get_metadata_loop ex rest (results @ [metadata_block file_path output]) st')"

definition get_metadata ::
  "'st executor \<Rightarrow> string list \<Rightarrow> 'st \<Rightarrow> (string \<times> bool) \<times> 'st" where
  "get_metadata ex file_paths st =
     (let (results, st') = get_metadata_loop ex (take 10 file_paths) [] st in
      ((join [newline, newline] results, False), st'))"

section \<open>Vocabulary of the properties\<close>

subsection \<open>Observing the executor\<close>

text \<open>
  \<open>logged ex\<close> behaves as \<open>ex\<close> and records, next to the state of \<open>ex\<close>, the
  commands it was given, in order: the commands an operation issues are what it adds to
  this list.
\<close>

definition logged :: "'st executor \<Rightarrow> (string list \<times> 'st) executor" where
  "logged ex cmd timeout lst =
     (let (r, st') = ex cmd timeout (snd lst) in (r, (fst lst @ [cmd], st')))"

text \<open>Running a list of commands one after the other: their results and the final state.\<close>

fun run_all :: "'st executor \<Rightarrow> string list \<Rightarrow> 'st \<Rightarrow> cmd_result list \<times> 'st" where
  "run_all ex [] st = ([], st)"
| "run_all ex (cmd # cmds) st =
     (let (r, st') = run_command ex cmd st;
          (rs, st'') = run_all ex cmds st'
      in (r # rs, st''))"

text \<open>
  Test doubles for the executor: \<open>always r\<close> answers every command with \<open>r\<close>;
  \<open>failing_on pre r\<close> answers \<open>r\<close> to the commands that start with \<open>pre\<close> and
  succeeds silently on all others; \<open>answering table\<close> answers a command with the
  result of the first entry of \<open>table\<close> whose key occurs in the command, and succeeds
  silently when there is none.
\<close>

definition always :: "cmd_result \<Rightarrow> unit executor" where
  "always r cmd timeout st = (r, st)"

definition failing_on :: "string \<Rightarrow> cmd_result \<Rightarrow> unit executor" where
  "failing_on pre r cmd timeout st = (if prefix pre cmd then (r, st) else (([], 0), st))"

fun answering :: "(string \<times> cmd_result) list \<Rightarrow> unit executor" where
  "answering [] cmd timeout st = (([], 0), st)"
| "answering ((key, r) # table) cmd timeout st =
     (if contains key cmd then (r, st) else answering table cmd timeout st)"

subsection \<open>Edits applied in order\<close>

text \<open>
  The single-edit operation applied to the edits of a list in order, each in the state
  its predecessor left: the results, and the state after all of them.
\<close>

fun edit_results ::
  "'st executor \<Rightarrow> string \<Rightarrow> (string \<times> string \<times> bool) list \<Rightarrow> 'st \<Rightarrow> (string \<times> bool) list" where
  "edit_results ex file_path [] st = []"
| "edit_results ex file_path ((old_string, new_string, replace_all) # edits) st =
     fst (edit_file ex file_path old_string new_string replace_all st)
       # edit_results ex file_path edits
           (snd (edit_file ex file_path old_string new_string replace_all st))"

fun edits_state ::
  "'st executor \<Rightarrow> string \<Rightarrow> (string \<times> string \<times> bool) list \<Rightarrow> 'st \<Rightarrow> 'st" where
  "edits_state ex file_path [] st = st"
| "edits_state ex file_path ((old_string, new_string, replace_all) # edits) st =
     edits_state ex file_path edits
       (snd (edit_file ex file_path old_string new_string replace_all st))"

text \<open>A result that stops a multi-edit: an error without the no-matches marker.\<close>

definition fatal :: "string \<times> bool \<Rightarrow> bool" where
  "fatal r = (snd r \<and> \<not> contains ''No matches found'' (fst r))"

text \<open>The result line of the edit with 1-based index \<open>i\<close>.\<close>

definition edit_line :: "nat \<Rightarrow> string \<times> bool \<Rightarrow> string" where
  "edit_line i r = ''Edit '' @ str_nat i @ '': '' @ fst r"

text \<open>The result lines of consecutive edits, the first of them with index \<open>i\<close>.\<close>

fun edit_lines :: "nat \<Rightarrow> (string \<times> bool) list \<Rightarrow> string list" where
  "edit_lines i [] = []"
| "edit_lines i (r # rs) = edit_line i r # edit_lines (Suc i) rs"

subsection \<open>Escaped text\<close>

text \<open>The characters \<open>escape_for_sed\<close> escapes, in the order it treats them.\<close>

definition sed_specials :: string where
  "sed_specials = [backslash, CHR ''/'', CHR ''.'', CHR ''*'', CHR ''['', CHR '']'',
                   CHR ''^'', CHR ''$'', CHR ''&'']"
section \<open>The remote side\<close>

text \<open>
  The command executor (\<open>src/agent_core/env_components/command_executor.py\<close>) and the
  programs it runs on the remote side are not among the sources. The spec describes the
  executor as a reliable channel that runs a command and returns its output and exit
  code, and says what the commands of the file manager do there. This section models
  that: a store of regular files, the programs \<open>base64\<close>, \<open>nl\<close>, \<open>tail\<close>, \<open>head\<close>,
  \<open>cp\<close>, \<open>rm\<close>, \<open>mkdir\<close> and \<open>sed\<close> as far as the commands of the file manager use
  them, and a shell that takes these commands apart. Directories, permissions, special
  files and different spellings of one name are not modelled.
\<close>

subsection \<open>Decoding what the write command carries\<close>

text \<open>
  Modelled from the spec: the remote base64 decoder is missing ("decoded and redirected
  into the target file on the remote side"). \<open>b64_value\<close> is the position of a
  character in the alphabet, \<open>b64decode\<close> turns four characters into three bytes and
  honours \<open>=\<close> padding in the last group; text that is not base64 has no decoding.
\<close>

definition b64_value :: "char \<Rightarrow> nat option" where
  "b64_value c = map_of (zip b64_alphabet [0..<64]) c"

fun b64decode :: "string \<Rightarrow> nat list option" where
  "b64decode [] = Some []"
| "b64decode (w # x # y # z # rest) =
     (case (b64_value w, b64_value x) of
        (Some p, Some q) \<Rightarrow>
          if rest = [] \<and> y = CHR ''='' \<and> z = CHR ''='' then Some [p * 4 + q div 16]
          else
            (case b64_value y of
               None \<Rightarrow> None
             | Some r \<Rightarrow>
                 if rest = [] \<and> z = CHR ''=''
                 then Some [p * 4 + q div 16, (q mod 16) * 16 + r div 4]
                 else
                   (case b64_value z of
                      None \<Rightarrow> None
                    | Some s \<Rightarrow>
                        map_option
                          ((@) [p * 4 + q div 16, (q mod 16) * 16 + r div 4, (r mod 4) * 64 + s])
                          (b64decode rest)))
      | _ \<Rightarrow> None)"
| "b64decode _ = None"

text \<open>
  Modelled from the spec: the decoding of the file's bytes into the output text of the
  executor is missing ("returns output text"). \<open>utf8_decode\<close> reads UTF-8 for the code
  points below 256.
\<close>

fun utf8_decode :: "nat list \<Rightarrow> string option" where
  "utf8_decode [] = Some []"
| "utf8_decode (b # bs) =
     (if b < 128 then map_option ((#) (char_of b)) (utf8_decode bs)
      else if b = 194 \<or> b = 195 then
        (case bs of
           [] \<Rightarrow> None
         | c # cs \<Rightarrow>
             if 128 \<le> c \<and> c < 192
             then map_option ((#) (char_of ((b - 192) * 64 + (c - 128)))) (utf8_decode cs)
             else None)
      else None)"

subsection \<open>Lines and their numbering\<close>

text \<open>
  Modelled from the spec: the line structure the read commands work on is missing ("first
  \<open>limit\<close> lines", "lines \<open>[offset, offset+limit)\<close>"). \<open>text_lines\<close> cuts a text at its
  newlines; a newline at the very end does not open another line.
\<close>

fun lines_from :: "string \<Rightarrow> string \<Rightarrow> string list" where
  "lines_from cur [] = (if cur = [] then [] else [cur])"
| "lines_from cur (c # cs) =
     (if c = newline then cur # lines_from [] cs else lines_from (cur @ [c]) cs)"

definition text_lines :: "string \<Rightarrow> string list" where
  "text_lines s = lines_from [] s"

text \<open>
  Modelled from the spec: the line-number format of the read commands is missing ("with
  1-based line numbers", "numbered starting at \<open>offset\<close>"). It is that of \<open>nl\<close>: the
  number right-aligned in six columns, a tab, the line, a newline; \<open>numbered v ls\<close>
  numbers the lines \<open>ls\<close> from \<open>v\<close> on.
\<close>

definition numbered_line :: "nat \<Rightarrow> string \<Rightarrow> string" where
  "numbered_line n l =
     replicate (6 - length (str_nat n)) (CHR '' '') @ str_nat n @ [tab] @ l @ [newline]"


text \<open>
  Modelled from the spec: the program \<open>nl\<close> of the read commands is missing.
  \<open>nl_ba v ls\<close> is the output of \<open>nl -ba -v v\<close> on the lines \<open>ls\<close>. A line that is one
  of the three section delimiters is printed as an empty line; it opens the header, the
  body or the footer of a page and sets the number back to \<open>v\<close>. Lines of a body are
  numbered, lines of a header or footer are indented by seven blanks instead.
\<close>

definition nl_header :: string where
  "nl_header = [backslash, CHR '':'', backslash, CHR '':'', backslash, CHR '':'']"

definition nl_body :: string where
  "nl_body = [backslash, CHR '':'', backslash, CHR '':'']"

definition nl_footer :: string where
  "nl_footer = [backslash, CHR '':'']"

definition nl_delimiter :: "string \<Rightarrow> bool" where
  "nl_delimiter l = (l = nl_header \<or> l = nl_body \<or> l = nl_footer)"

fun nl_run :: "bool \<Rightarrow> nat \<Rightarrow> nat \<Rightarrow> string list \<Rightarrow> string" where
  "nl_run body n v [] = []"
| "nl_run body n v (l # ls) =
     (if nl_delimiter l then [newline] @ nl_run (l = nl_body) v v ls
      else if body then numbered_line n l @ nl_run body (Suc n) v ls
      else replicate 7 (CHR '' '') @ l @ [newline] @ nl_run body n v ls)"

definition nl_ba :: "nat \<Rightarrow> string list \<Rightarrow> string" where
  "nl_ba v ls = nl_run True v v ls"

subsection \<open>The stream editor\<close>

text \<open>
  Modelled from the spec: the substitution program is missing ("apply global
  substitution across the whole file", "substitution only to the first match found
  scanning from the start of the file"). A script is \<open>s/regex/replacement/g\<close> or
  \<open>0,/regex/s//replacement/\<close>. In the regex and in the replacement a backslash before
  one of the characters of \<open>sed_specials\<close> stands for that character and \<open>/\<close> ends the
  text; in the replacement a bare \<open>&\<close> stands for the matched text. A newline, or the
  end of the script, inside a text makes the script invalid, as does an empty regex.
  Regex operators and other backslash sequences are outside the model.
\<close>

datatype 'a parsed = Parsed 'a | Rejected | Unmodelled

fun and_then :: "'a parsed \<Rightarrow> ('a \<Rightarrow> 'b parsed) \<Rightarrow> 'b parsed" where
  "and_then (Parsed x) f = f x"
| "and_then Rejected f = Rejected"
| "and_then Unmodelled f = Unmodelled"

fun scan_regex :: "string \<Rightarrow> (string \<times> string) parsed" where
  "scan_regex [] = Rejected"
| "scan_regex [c] =
     (if c = CHR ''/'' then Parsed ([], [])
      else if c \<in> set ''.*[^$'' then Unmodelled
      else Rejected)"
| "scan_regex (c # d # ds) =
     (if c = CHR ''/'' then Parsed ([], d # ds)
      else if c = newline then Rejected
      else if c = backslash then
        (if d \<in> set sed_specials
         then and_then (scan_regex ds) (\<lambda>(re, rest). Parsed (d # re, rest))
         else Unmodelled)
      else if c \<in> set ''.*[^$'' then Unmodelled
      else and_then (scan_regex (d # ds)) (\<lambda>(re, rest). Parsed (c # re, rest)))"

fun scan_replacement :: "string \<Rightarrow> (char option list \<times> string) parsed" where
  "scan_replacement [] = Rejected"
| "scan_replacement [c] = (if c = CHR ''/'' then Parsed ([], []) else Rejected)"
| "scan_replacement (c # d # ds) =
     (if c = CHR ''/'' then Parsed ([], d # ds)
      else if c = newline then Rejected
      else if c = backslash then
        (if d \<in> set sed_specials
         then and_then (scan_replacement ds) (\<lambda>(rp, rest). Parsed (Some d # rp, rest))
         else Unmodelled)
      else and_then (scan_replacement (d # ds))
             (\<lambda>(rp, rest). Parsed ((if c = CHR ''&'' then None else Some c) # rp, rest)))"

datatype sed_script = Sub_all string "char option list" | Sub_first string "char option list"

fun strip_prefix :: "string \<Rightarrow> string \<Rightarrow> string option" where
  "strip_prefix [] ys = Some ys"
| "strip_prefix (x # xs) [] = None"
| "strip_prefix (x # xs) (y # ys) = (if x = y then strip_prefix xs ys else None)"

definition parse_script :: "string \<Rightarrow> sed_script parsed" where
  "parse_script s =
     (case strip_prefix ''s/'' s of
        Some r \<Rightarrow>
          and_then (scan_regex r) (\<lambda>(re, r1).
          and_then (scan_replacement r1) (\<lambda>(rp, r2).
            if r2 \<noteq> ''g'' then Unmodelled
            else if re = [] then Rejected
            else Parsed (Sub_all re rp)))
      | None \<Rightarrow>
          (case strip_prefix ''0,/'' s of
             None \<Rightarrow> Unmodelled
           | Some r \<Rightarrow>
               and_then (scan_regex r) (\<lambda>(re, r1).
                 case strip_prefix ''s//'' r1 of
                   None \<Rightarrow> Unmodelled
                 | Some r2 \<Rightarrow>
                     and_then (scan_replacement r2) (\<lambda>(rp, r3).
                       if r3 \<noteq> [] then Unmodelled
                       else if re = [] then Rejected
                       else Parsed (Sub_first re rp)))))"

text \<open>
  Modelled from the spec: how the substitution works on the file is missing. The text is
  cut at its newlines. \<open>sub_scan\<close> replaces, in one line, every match of the literal
  regex from the left, going on behind each match; \<open>sub_first\<close> replaces the leftmost
  match only; \<open>first_line\<close> applies \<open>sub_first\<close> to the first line that has a match.
\<close>

fun split_nl :: "string \<Rightarrow> string list" where
  "split_nl [] = [[]]"
| "split_nl (c # cs) =
     (if c = newline then [] # split_nl cs
      else (c # hd (split_nl cs)) # tl (split_nl cs))"

definition fill :: "char option list \<Rightarrow> string \<Rightarrow> string" where
  "fill rp m = concat (map (\<lambda>i. case i of Some c \<Rightarrow> [c] | None \<Rightarrow> m) rp)"

fun sub_scan :: "string \<Rightarrow> string \<Rightarrow> nat \<Rightarrow> string \<Rightarrow> string" where
  "sub_scan re out k [] = []"
| "sub_scan re out (Suc k) (c # cs) = sub_scan re out k cs"
| "sub_scan re out 0 (c # cs) =
     (if prefix re (c # cs) then out @ sub_scan re out (length re - 1) cs
      else c # sub_scan re out 0 cs)"

fun sub_first :: "string \<Rightarrow> string \<Rightarrow> string \<Rightarrow> string" where
  "sub_first re out [] = []"
| "sub_first re out (c # cs) =
     (if prefix re (c # cs) then out @ drop (length re) (c # cs)
      else c # sub_first re out cs)"

fun first_line :: "string \<Rightarrow> string \<Rightarrow> string list \<Rightarrow> string list" where
  "first_line re out [] = []"
| "first_line re out (l # ls) =
     (if contains re l then sub_first re out l # ls else l # first_line re out ls)"

fun sed_apply :: "sed_script \<Rightarrow> string \<Rightarrow> string" where
  "sed_apply (Sub_all re rp) text =
     join [newline] (map (sub_scan re (fill rp re) 0) (split_nl text))"
| "sed_apply (Sub_first re rp) text =
     join [newline] (first_line re (fill rp re) (split_nl text))"

subsection \<open>The shell and the store\<close>

text \<open>
  Modelled from the spec: the remote file system is missing. A store gives the text of
  each regular file. \<open>holds_file\<close> says that a name can be that of a regular file: it is
  not empty and does not end in a slash, \<open>.\<close> or \<open>..\<close>; \<open>operand\<close> says that a
  program takes the name as a file and not as an option.
\<close>

type_synonym store = "string \<Rightarrow> string option"

definition last_component :: "string \<Rightarrow> string" where
  "last_component w = rev (takeWhile (\<lambda>c. c \<noteq> CHR ''/'') (rev w))"

definition holds_file :: "string \<Rightarrow> bool" where
  "holds_file w =
     (w \<noteq> [] \<and> last w \<noteq> CHR ''/'' \<and> last_component w \<noteq> ''.'' \<and> last_component w \<noteq> ''..'')"

definition operand :: "string \<Rightarrow> bool" where
  "operand w = (holds_file w \<and> hd w \<noteq> CHR ''-'')"

text \<open>
  Modelled from the spec: how the remote shell takes a command line apart is missing.
  \<open>unterminated\<close> follows the single quotes of a command line: \<open>Some True\<close> when the
  line ends inside a quoted text, \<open>None\<close> when a character that starts another kind of
  quoting or a second line stands outside the quotes. \<open>match_parts\<close> compares a command
  line with a form made of fixed text, single-quoted words and decimal numbers, and
  gives the words and numbers.
\<close>

definition is_digit :: "char \<Rightarrow> bool" where
  "is_digit c = (c \<in> set ''0123456789'')"

definition digit_value :: "char \<Rightarrow> nat" where
  "digit_value c = of_char c - 48"

definition parse_nat :: "string \<Rightarrow> nat" where
  "parse_nat ds = foldl (\<lambda>a c. 10 * a + digit_value c) 0 ds"

fun unterminated :: "bool \<Rightarrow> string \<Rightarrow> bool option" where
  "unterminated inside [] = Some inside"
| "unterminated inside (c # cs) =
     (if c = sq then unterminated (\<not> inside) cs
      else if \<not> inside \<and> c \<in> set [backslash, CHR 0x22, CHR 0x60, CHR ''$'', CHR ''#'', CHR ''<'',
                                   newline]
      then None
      else unterminated inside cs)"

datatype part = Lit string | Quoted | Number

fun match_parts :: "part list \<Rightarrow> string \<Rightarrow> string list option" where
  "match_parts [] s = (if s = [] then Some [] else None)"
| "match_parts (Lit t # ps) s =
     (case strip_prefix t s of None \<Rightarrow> None | Some r \<Rightarrow> match_parts ps r)"
| "match_parts (Quoted # ps) s =
     (case s of
        [] \<Rightarrow> None
      | c # r \<Rightarrow>
          if c \<noteq> sq then None
          else
            (case dropWhile (\<lambda>x. x \<noteq> sq) r of
               [] \<Rightarrow> None
             | _ # r' \<Rightarrow> map_option ((#) (takeWhile (\<lambda>x. x \<noteq> sq) r)) (match_parts ps r')))"
| "match_parts (Number # ps) s =
     (if takeWhile is_digit s = [] then None
      else map_option ((#) (takeWhile is_digit s)) (match_parts ps (dropWhile is_digit s)))"

text \<open>
  Modelled from the spec: the commands on the remote side are missing. Each function
  below is one command form of the file manager, given the words and numbers of the
  command line; \<open>None\<close> means that the model does not say what the command does.
\<close>

type_synonym outcome = "(cmd_result \<times> store) option"

definition not_found :: "string \<Rightarrow> string \<Rightarrow> string" where
  "not_found prog f =
     prog @ '': cannot open '' @ [sq] @ f @ [sq] @ '' for reading: No such file or directory''"

definition run_mkdir :: "string \<Rightarrow> store \<Rightarrow> outcome" where
  "run_mkdir d st = (if d \<noteq> [] \<and> hd d \<noteq> CHR ''-'' then Some (([], 0), st) else None)"

definition run_write :: "string \<Rightarrow> string \<Rightarrow> store \<Rightarrow> outcome" where
  "run_write payload f st =
     (if f = [] then Some ((''sh: : No such file or directory'' @ [newline], 1), st)
      else if \<not> holds_file f then Some ((''sh: '' @ f @ '': Is a directory'' @ [newline], 1), st)
      else
        (case b64decode payload of
           None \<Rightarrow> None
         | Some bytes \<Rightarrow>
             (case utf8_decode bytes of
                None \<Rightarrow> None
              | Some text \<Rightarrow> Some (([], 0), st(f \<mapsto> text)))))"

definition run_nl :: "string \<Rightarrow> store \<Rightarrow> outcome" where
  "run_nl f st =
     (if \<not> operand f then None
      else
        (case st f of
           None \<Rightarrow> Some ((''nl: '' @ f @ '': No such file or directory'' @ [newline], 1), st)
         | Some text \<Rightarrow> Some ((nl_ba 1 (text_lines text), 0), st)))"

definition run_head :: "string \<Rightarrow> string \<Rightarrow> store \<Rightarrow> outcome" where
  "run_head lim f st =
     (if \<not> operand f then None
      else
        (case st f of
           None \<Rightarrow> Some ((nl_ba 1 [not_found ''head'' f], 0), st)
         | Some text \<Rightarrow> Some ((nl_ba 1 (take (parse_nat lim) (text_lines text)), 0), st)))"

definition run_tail :: "string \<Rightarrow> string \<Rightarrow> string \<Rightarrow> string \<Rightarrow> store \<Rightarrow> outcome" where
  "run_tail off f lim v st =
     (if \<not> operand f then None
      else
        (case st f of
           None \<Rightarrow>
             Some ((nl_ba (parse_nat v) (take (parse_nat lim) [not_found ''tail'' f]), 0), st)
         | Some text \<Rightarrow>
             Some ((nl_ba (parse_nat v)
                      (take (parse_nat lim) (drop (parse_nat off - 1) (text_lines text))), 0),
                   st)))"

definition run_cp :: "string \<Rightarrow> string \<Rightarrow> store \<Rightarrow> outcome" where
  "run_cp f g st =
     (if \<not> operand f \<or> \<not> operand g then None
      else
        (case st f of
           None \<Rightarrow>
             Some ((''cp: cannot stat '' @ [sq] @ f @ [sq] @ '': No such file or directory''
                      @ [newline], 1), st)
         | Some text \<Rightarrow> Some (([], 0), st(g \<mapsto> text))))"

definition run_rm :: "string \<Rightarrow> store \<Rightarrow> outcome" where
  "run_rm f st = (if \<not> operand f then None else Some (([], 0), st(f := None)))"

definition run_sed :: "string \<Rightarrow> string \<Rightarrow> store \<Rightarrow> outcome" where
  "run_sed script f st =
     (if \<not> operand f then None
      else
        (case parse_script script of
           Unmodelled \<Rightarrow> None
         | Rejected \<Rightarrow> Some ((''sed: -e expression #1: invalid command'' @ [newline], 1), st)
         | Parsed prog \<Rightarrow>
             (case st f of
                None \<Rightarrow>
                  Some ((''sed: can't read '' @ f @ '': No such file or directory'' @ [newline],
                         2), st)
              | Some text \<Rightarrow> Some (([], 0), st(f \<mapsto> sed_apply prog text)))))"

text \<open>
  Modelled from the spec: the shell is missing. The command forms are those the file
  manager writes; \<open>template\<close> is the text of each form and \<open>run\<close> the command it
  starts. A command line that ends inside a quoted text is a syntax error and runs
  nothing; otherwise the first form that the line has says which command runs.
\<close>

datatype form = Mkdir | Write | Nl | Head | Tail | Cp_probe | Cp | Sed | Rm

fun template :: "form \<Rightarrow> part list" where
  "template Mkdir = [Lit ''mkdir -p '', Quoted]"
| "template Write = [Lit ''echo '', Quoted, Lit '' | base64 -d > '', Quoted]"
| "template Nl = [Lit ''nl -ba '', Quoted, Lit '' 2>&1'']"
| "template Head = [Lit ''head -n '', Number, Lit '' '', Quoted, Lit '' 2>&1 | nl -ba'']"
| "template Tail =
     [Lit ''tail -n +'', Number, Lit '' '', Quoted, Lit '' 2>&1 | head -n '', Number,
      Lit '' | nl -ba -v '', Number]"
| "template Cp_probe = [Lit ''cp '', Quoted, Lit '' '', Quoted, Lit '' 2>&1'']"
| "template Cp = [Lit ''cp '', Quoted, Lit '' '', Quoted]"
| "template Sed = [Lit ''sed -i '', Quoted, Lit '' '', Quoted]"
| "template Rm = [Lit ''rm -f '', Quoted]"

fun run :: "form \<Rightarrow> string list \<Rightarrow> store \<Rightarrow> outcome" where
  "run Mkdir ws st = (case ws of [d] \<Rightarrow> run_mkdir d st | _ \<Rightarrow> None)"
| "run Write ws st = (case ws of [payload, f] \<Rightarrow> run_write payload f st | _ \<Rightarrow> None)"
| "run Nl ws st = (case ws of [f] \<Rightarrow> run_nl f st | _ \<Rightarrow> None)"
| "run Head ws st = (case ws of [lim, f] \<Rightarrow> run_head lim f st | _ \<Rightarrow> None)"
| "run Tail ws st = (case ws of [off, f, lim, v] \<Rightarrow> run_tail off f lim v st | _ \<Rightarrow> None)"
| "run Cp_probe ws st = (case ws of [f, g] \<Rightarrow> run_cp f g st | _ \<Rightarrow> None)"
| "run Cp ws st = (case ws of [f, g] \<Rightarrow> run_cp f g st | _ \<Rightarrow> None)"
| "run Sed ws st = (case ws of [script, f] \<Rightarrow> run_sed script f st | _ \<Rightarrow> None)"
| "run Rm ws st = (case ws of [f] \<Rightarrow> run_rm f st | _ \<Rightarrow> None)"

fun dispatch :: "form list \<Rightarrow> string \<Rightarrow> store \<Rightarrow> outcome" where
  "dispatch [] cmd st = None"
| "dispatch (f # fs) cmd st =
     (case match_parts (template f) cmd of
        Some ws \<Rightarrow> run f ws st
      | None \<Rightarrow> dispatch fs cmd st)"

definition shell :: "string \<Rightarrow> store \<Rightarrow> outcome" where
  "shell cmd st =
     (case unterminated False cmd of
        None \<Rightarrow> None
      | Some True \<Rightarrow>
          Some ((''sh: syntax error: unterminated quoted string'' @ [newline], 2), st)
      | Some False \<Rightarrow>
          dispatch [Mkdir, Write, Nl, Head, Tail, Cp_probe, Cp, Sed, Rm] cmd st)"


text \<open>
  A plain path: a file name that the commands of the file manager can carry between
  single quotes.
\<close>

definition plain_path :: "string \<Rightarrow> bool" where
  "plain_path p = (operand p \<and> sq \<notin> set p)"

section \<open>Properties of \<open>read_file\<close>\<close>

lemma read_file_unfold:
  "read_file ex p offset limit st =
     (let r = ex (read_cmd p offset limit) 30 st; out = fst (fst r); code = snd (fst r) in
      if contains ''No such file or directory'' out \<or> contains ''cannot open'' out
      then ((''File not found: '' @ p, True), snd r)
      else if code \<noteq> 0 \<and> out \<noteq> [] then ((''Error reading file: '' @ out, True), snd r)
      else ((out, False), snd r))"
  by (simp add: read_file_def run_command_def split_beta Let_def)

text \<open>
  C10. When the read command produces no output, \<open>read_file\<close> returns the empty text
  with the error flag unset, whatever the exit code of the command is.
\<close>

theorem read_file_empty_output:
  assumes "fst (ex (read_cmd p offset limit) 30 st) = ([], code)"
  shows "fst (read_file ex p offset limit st) = ([], False)"
  using assms by (simp add: read_file_unfold Let_def)

theorem read_file_empty_output_witness:
  "fst (always ([], 1) (read_cmd ''/tmp/f'' None None) 30 ()) = ([], 1)
   \<and> fst (read_file (always ([], 1)) ''/tmp/f'' None None ()) = ([], False)"
proof -
  have h: "fst (always ([], 1) (read_cmd ''/tmp/f'' None None) 30 ()) = ([], 1)"
    by (simp add: always_def)
  from read_file_empty_output [of "always ([], 1)" "''/tmp/f''" None None "()" 1] h
  show ?thesis by simp
qed

text \<open>
  C5, as stated, fails: the read command exits with code 0 and prints the numbered line
  of a file that holds the text \<open>No such file or directory\<close>; \<open>read_file\<close> reports
  the file as not found.
\<close>

theorem read_file_marker_counterexample:
  "fst (always (''     1'' @ [tab] @ ''No such file or directory'' @ [newline], 0)
          (read_cmd ''/tmp/notes.txt'' None None) 30 ())
     = (''     1'' @ [tab] @ ''No such file or directory'' @ [newline], 0)
   \<and> ''     1'' @ [tab] @ ''No such file or directory'' @ [newline] \<noteq> []
   \<and> fst (read_file (always (''     1'' @ [tab] @ ''No such file or directory'' @ [newline], 0))
            ''/tmp/notes.txt'' None None ())
     = (''File not found: /tmp/notes.txt'', True)"
  by code_simp

text \<open>
  C5, amended. When the read command exits with code 0 and its output contains neither
  \<open>No such file or directory\<close> nor \<open>cannot open\<close>, \<open>read_file\<close> returns the output
  unchanged with the error flag unset; when the output contains one of the two markers,
  \<open>read_file\<close> reports the file as not found, exit code 0 or not.
\<close>

theorem read_file_exit_zero:
  assumes "fst (ex (read_cmd p offset limit) 30 st) = (out, 0)"
  shows "(\<not> contains ''No such file or directory'' out \<and> \<not> contains ''cannot open'' out
            \<longrightarrow> fst (read_file ex p offset limit st) = (out, False))
       \<and> (contains ''No such file or directory'' out \<or> contains ''cannot open'' out
            \<longrightarrow> fst (read_file ex p offset limit st) = (''File not found: '' @ p, True))"
  using assms by (simp add: read_file_unfold Let_def)

theorem read_file_exit_zero_witness:
  "fst (always (''     1'' @ [tab] @ ''hello'' @ [newline], 0) (read_cmd ''/tmp/f'' None None) 30 ())
     = (''     1'' @ [tab] @ ''hello'' @ [newline], 0)
   \<and> \<not> contains ''No such file or directory'' (''     1'' @ [tab] @ ''hello'' @ [newline])
   \<and> \<not> contains ''cannot open'' (''     1'' @ [tab] @ ''hello'' @ [newline])
   \<and> fst (read_file (always (''     1'' @ [tab] @ ''hello'' @ [newline], 0)) ''/tmp/f'' None None ())
     = (''     1'' @ [tab] @ ''hello'' @ [newline], False)"
proof -
  have h: "fst (always (''     1'' @ [tab] @ ''hello'' @ [newline], 0)
                  (read_cmd ''/tmp/f'' None None) 30 ())
             = (''     1'' @ [tab] @ ''hello'' @ [newline], 0)"
    by (simp add: always_def)
  have n1: "\<not> contains ''No such file or directory'' (''     1'' @ [tab] @ ''hello'' @ [newline])"
    by code_simp
  have n2: "\<not> contains ''cannot open'' (''     1'' @ [tab] @ ''hello'' @ [newline])"
    by code_simp
  from read_file_exit_zero [of "always (''     1'' @ [tab] @ ''hello'' @ [newline], 0)"
         "''/tmp/f''" None None "()" "''     1'' @ [tab] @ ''hello'' @ [newline]"] h n1 n2
  show ?thesis by blast
qed

section \<open>Properties of \<open>write_file\<close>\<close>

text \<open>
  C9. The pair \<open>write_file\<close> returns is a function of the result of the write command
  alone: the error flag is set, and the message carries the raw output, exactly when its
  exit code is not 0; otherwise the message names the path. The result of the
  \<open>mkdir -p\<close> command that precedes it is not looked at.
\<close>

theorem write_file_result:
  assumes "fst (ex (write_cmd p content) 30
                  (if dirname p \<noteq> [] then snd (ex (mkdir_cmd (dirname p)) 30 st) else st))
             = (out, code)"
  shows "fst (write_file ex p content st) =
           (if code \<noteq> 0 then (''Error writing file: '' @ out, True)
            else (''Successfully wrote to '' @ p, False))"
  using assms
  by (cases "dirname p = []") (auto simp add: write_file_def run_command_def Let_def split_beta)

theorem write_file_result_witness:
  "fst (failing_on ''mkdir'' (''mkdir: cannot create directory'', 1) (mkdir_cmd (dirname ''/ro/f'')) 30 ())
     = (''mkdir: cannot create directory'', 1)
   \<and> fst (write_file (failing_on ''mkdir'' (''mkdir: cannot create directory'', 1)) ''/ro/f'' ''hi'' ())
     = (''Successfully wrote to /ro/f'', False)"
proof -
  have h: "fst (failing_on ''mkdir'' (''mkdir: cannot create directory'', 1) (write_cmd ''/ro/f'' ''hi'') 30
             (if dirname ''/ro/f'' \<noteq> []
              then snd (failing_on ''mkdir'' (''mkdir: cannot create directory'', 1)
                          (mkdir_cmd (dirname ''/ro/f'')) 30 ())
              else ())) = ([], 0)"
    by (simp add: failing_on_def write_cmd_def)
  have m: "fst (failing_on ''mkdir'' (''mkdir: cannot create directory'', 1)
                  (mkdir_cmd (dirname ''/ro/f'')) 30 ())
             = (''mkdir: cannot create directory'', 1)"
    by (simp add: failing_on_def mkdir_cmd_def)
  from write_file_result [of "failing_on ''mkdir'' (''mkdir: cannot create directory'', 1)"
         "''/ro/f''" "''hi''" "()" "[]" 0] h m
  show ?thesis by simp
qed

section \<open>Properties of \<open>edit_file\<close>\<close>

text \<open>
  C3. When the backup-copy probe fails (its output contains
  \<open>No such file or directory\<close>, or its exit code is not 0), \<open>edit_file\<close> returns the
  not-found error, the probe is the only command it issues, and the remote state is the
  one the probe left: no substitution command runs.
\<close>

theorem edit_file_probe_failure:
  assumes "fst (ex (probe_cmd p) 30 st) = (out, code)"
      and "contains ''No such file or directory'' out \<or> code \<noteq> 0"
  shows "edit_file ex p old_string new_string replace_all st =
           ((''File not found: '' @ p, True), snd (ex (probe_cmd p) 30 st))
       \<and> snd (edit_file (logged ex) p old_string new_string replace_all (log, st)) =
           (log @ [probe_cmd p], snd (ex (probe_cmd p) 30 st))"
  using assms
  by (auto simp add: edit_file_def run_command_def logged_def Let_def split_beta)

theorem edit_file_probe_failure_witness:
  "fst (failing_on ''cp'' (''cp: cannot stat '/tmp/missing': No such file or directory'', 1)
          (probe_cmd ''/tmp/missing'') 30 ())
     = (''cp: cannot stat '/tmp/missing': No such file or directory'', 1)
   \<and> fst (edit_file (failing_on ''cp'' (''cp: cannot stat '/tmp/missing': No such file or directory'', 1))
            ''/tmp/missing'' ''a'' ''b'' False ())
     = (''File not found: /tmp/missing'', True)
   \<and> fst (snd (edit_file
                 (logged (failing_on ''cp'' (''cp: cannot stat '/tmp/missing': No such file or directory'', 1)))
                 ''/tmp/missing'' ''a'' ''b'' False ([], ())))
     = [''cp '/tmp/missing' '/tmp/missing.bak' 2>&1'']"
proof -
  have h: "fst (failing_on ''cp'' (''cp: cannot stat '/tmp/missing': No such file or directory'', 1)
                  (probe_cmd ''/tmp/missing'') 30 ())
             = (''cp: cannot stat '/tmp/missing': No such file or directory'', 1)"
    by (simp add: failing_on_def probe_cmd_def)
  have g: "contains ''No such file or directory''
             ''cp: cannot stat '/tmp/missing': No such file or directory'' \<or> (1::int) \<noteq> 0"
    by simp
  have c: "probe_cmd ''/tmp/missing'' = ''cp '/tmp/missing' '/tmp/missing.bak' 2>&1''"
    by (simp add: probe_cmd_def sq_def)
  from edit_file_probe_failure
         [of "failing_on ''cp'' (''cp: cannot stat '/tmp/missing': No such file or directory'', 1)"
             "''/tmp/missing''" "()"
             "''cp: cannot stat '/tmp/missing': No such file or directory''" 1
             "''a''" "''b''" False "[]"] h g c
  show ?thesis by simp
qed

section \<open>Properties of \<open>multi_edit_file\<close>\<close>


lemma multi_edit_loop_step:
  "multi_edit_loop ex p ((old, new, ra) # edits) i acc st =
     (if fatal (fst (edit_file ex p old new ra st))
      then ((''Error on edit '' @ str_nat (Suc i) @ '': ''
               @ fst (fst (edit_file ex p old new ra st)), True),
            snd (edit_file ex p old new ra st))
      else multi_edit_loop ex p edits (Suc i)
             (acc @ [edit_line (Suc i) (fst (edit_file ex p old new ra st))])
             (snd (edit_file ex p old new ra st)))"
  by (simp add: split_beta fatal_def edit_line_def)

lemma multi_edit_loop_no_fatal:
  "\<forall>r \<in> set (edit_results ex p edits st). \<not> fatal r \<Longrightarrow>
   multi_edit_loop ex p edits i acc st =
     ((join [newline] (acc @ edit_lines (Suc i) (edit_results ex p edits st)), False),
      edits_state ex p edits st)"
proof (induction edits arbitrary: i acc st)
  case Nil
  then show ?case by simp
next
  case (Cons e edits)
  obtain old new ra where e: "e = (old, new, ra)" by (cases e)
  let ?r = "fst (edit_file ex p old new ra st)"
  let ?st = "snd (edit_file ex p old new ra st)"
  from Cons.prems e have nf: "\<not> fatal ?r"
    and rest: "\<forall>r \<in> set (edit_results ex p edits ?st). \<not> fatal r"
    by simp_all
  from nf have "multi_edit_loop ex p (e # edits) i acc st =
      multi_edit_loop ex p edits (Suc i) (acc @ [edit_line (Suc i) ?r]) ?st"
    unfolding e by (simp only: multi_edit_loop_step if_False)
  also have "\<dots> = ((join [newline]
         ((acc @ [edit_line (Suc i) ?r]) @ edit_lines (Suc (Suc i)) (edit_results ex p edits ?st)),
       False),
      edits_state ex p edits ?st)"
    by (rule Cons.IH [OF rest])
  also have "\<dots> = ((join [newline] (acc @ edit_lines (Suc i) (edit_results ex p (e # edits) st)),
       False),
      edits_state ex p (e # edits) st)"
    by (simp add: e)
  finally show ?case .
qed

lemma multi_edit_loop_fatal:
  "k < length edits \<Longrightarrow>
   \<forall>r \<in> set (take k (edit_results ex p edits st)). \<not> fatal r \<Longrightarrow>
   fatal (edit_results ex p edits st ! k) \<Longrightarrow>
   multi_edit_loop ex p edits i acc st =
     ((''Error on edit '' @ str_nat (i + k + 1) @ '': ''
         @ fst (edit_results ex p edits st ! k), True),
      edits_state ex p (take (Suc k) edits) st)"
proof (induction edits arbitrary: i acc st k)
  case Nil
  then show ?case by simp
next
  case (Cons e edits)
  obtain old new ra where e: "e = (old, new, ra)" by (cases e)
  let ?r = "fst (edit_file ex p old new ra st)"
  let ?st = "snd (edit_file ex p old new ra st)"
  show ?case
  proof (cases k)
    case 0
    with Cons.prems e have "fatal ?r" by simp
    then show ?thesis unfolding e 0 by (simp add: multi_edit_loop_step del: multi_edit_loop.simps)
  next
    case (Suc j)
    with Cons.prems e have nf: "\<not> fatal ?r"
      and j: "j < length edits"
      and rest: "\<forall>r \<in> set (take j (edit_results ex p edits ?st)). \<not> fatal r"
      and fj: "fatal (edit_results ex p edits ?st ! j)"
      by simp_all
    from nf have "multi_edit_loop ex p (e # edits) i acc st =
        multi_edit_loop ex p edits (Suc i) (acc @ [edit_line (Suc i) ?r]) ?st"
      unfolding e by (simp only: multi_edit_loop_step if_False)
    also have "\<dots> = ((''Error on edit '' @ str_nat (Suc i + j + 1) @ '': ''
         @ fst (edit_results ex p edits ?st ! j), True),
      edits_state ex p (take (Suc j) edits) ?st)"
      by (rule Cons.IH [OF j rest fj])
    also have "\<dots> = ((''Error on edit '' @ str_nat (i + k + 1) @ '': ''
         @ fst (edit_results ex p (e # edits) st ! k), True),
      edits_state ex p (take (Suc k) (e # edits)) st)"
      by (simp add: e Suc)
    finally show ?thesis .
  qed
qed

text \<open>
  C2. \<open>multi_edit_file\<close> applies the edits in order through \<open>edit_file\<close>, each in the
  state the previous one left. If edit \<open>k\<close> (counting from 0) is the first whose result
  is an error without the no-matches marker, the call returns
  \<open>Error on edit k+1: <result>\<close> with the error flag set, and no later edit runs: the
  state is the one after the first \<open>k+1\<close> edits. Results that are not such errors,
  among them errors that carry the marker, do not stop the loop; when no edit is fatal
  the call returns the lines \<open>Edit i: <result>\<close>, numbered from 1 and joined by
  newlines, with the error flag unset.
\<close>

theorem multi_edit_file_outcome:
  "((\<forall>r \<in> set (edit_results ex p edits st). \<not> fatal r) \<longrightarrow>
     multi_edit_file ex p edits st =
       ((join [newline] (edit_lines 1 (edit_results ex p edits st)), False),
        edits_state ex p edits st))
   \<and> (k < length edits \<and> (\<forall>r \<in> set (take k (edit_results ex p edits st)). \<not> fatal r)
        \<and> fatal (edit_results ex p edits st ! k) \<longrightarrow>
       multi_edit_file ex p edits st =
         ((''Error on edit '' @ str_nat (k + 1) @ '': ''
             @ fst (edit_results ex p edits st ! k), True),
          edits_state ex p (take (Suc k) edits) st))"
  using multi_edit_loop_no_fatal [of ex p edits st 0 "[]"]
        multi_edit_loop_fatal [of k edits ex p st 0 "[]"]
  by (simp add: multi_edit_file_def)


theorem multi_edit_file_outcome_witness:
  "edit_results
       (answering [(''s/b/'', (''sed: No matches found'', 1)), (''s/c/'', (''sed: read error'', 4))])
       ''/f'' [(''a'', ''x'', False), (''b'', ''y'', True)] ()
      = [(''Successfully replaced first occurrence in /f'', False),
         (''Error editing file: sed: No matches found'', True)]
   \<and> \<not> fatal (''Successfully replaced first occurrence in /f'', False)
   \<and> \<not> fatal (''Error editing file: sed: No matches found'', True)
   \<and> multi_edit_file
        (answering [(''s/b/'', (''sed: No matches found'', 1)), (''s/c/'', (''sed: read error'', 4))])
        ''/f'' [(''a'', ''x'', False), (''b'', ''y'', True)] ()
      = ((''Edit 1: Successfully replaced first occurrence in /f'' @ [newline]
            @ ''Edit 2: Error editing file: sed: No matches found'', False), ())
   \<and> fatal (edit_results
               (answering [(''s/b/'', (''sed: No matches found'', 1)), (''s/c/'', (''sed: read error'', 4))])
               ''/f'' [(''a'', ''x'', False), (''b'', ''y'', True), (''c'', ''z'', True), (''d'', ''w'', True)] () ! 2)
   \<and> multi_edit_file
        (answering [(''s/b/'', (''sed: No matches found'', 1)), (''s/c/'', (''sed: read error'', 4))])
        ''/f'' [(''a'', ''x'', False), (''b'', ''y'', True), (''c'', ''z'', True), (''d'', ''w'', True)] ()
      = ((''Error on edit 3: Error editing file: sed: read error'', True), ())"
proof -
  let ?ex = "answering [(''s/b/'', (''sed: No matches found'', 1)), (''s/c/'', (''sed: read error'', 4))]"
  let ?two = "[(''a'', ''x'', False), (''b'', ''y'', True)]"
  let ?four = "[(''a'', ''x'', False), (''b'', ''y'', True), (''c'', ''z'', True), (''d'', ''w'', True)]"
  have r2: "edit_results ?ex ''/f'' ?two () =
              [(''Successfully replaced first occurrence in /f'', False),
               (''Error editing file: sed: No matches found'', True)]"
    by code_simp
  have f1: "\<not> fatal (''Successfully replaced first occurrence in /f'', False)"
    by (simp add: fatal_def)
  have f2: "\<not> fatal (''Error editing file: sed: No matches found'', True)"
    by code_simp
  have f3: "fatal (''Error editing file: sed: read error'', True)"
    by code_simp
  have h1: "\<forall>r \<in> set (edit_results ?ex ''/f'' ?two ()). \<not> fatal r"
    unfolding r2 by (simp add: f1 f2)
  have n3: "edit_results ?ex ''/f'' ?four () ! 2 = (''Error editing file: sed: read error'', True)"
    by code_simp
  have t2: "take 2 (edit_results ?ex ''/f'' ?four ()) =
              [(''Successfully replaced first occurrence in /f'', False),
               (''Error editing file: sed: No matches found'', True)]"
    by code_simp
  have h2: "\<forall>r \<in> set (take 2 (edit_results ?ex ''/f'' ?four ())). \<not> fatal r"
    unfolding t2 by (simp add: f1 f2)
  have h3: "fatal (edit_results ?ex ''/f'' ?four () ! 2)"
    unfolding n3 by (rule f3)
  have l2: "edit_lines 1 [(''Successfully replaced first occurrence in /f'', False),
               (''Error editing file: sed: No matches found'', True)]
            = [''Edit 1: Successfully replaced first occurrence in /f'',
               ''Edit 2: Error editing file: sed: No matches found'']"
    by code_simp
  have s3: "str_nat (2 + 1) = ''3''" by code_simp
  have a: "multi_edit_file ?ex ''/f'' ?two () =
      ((''Edit 1: Successfully replaced first occurrence in /f'' @ [newline]
            @ ''Edit 2: Error editing file: sed: No matches found'', False), ())"
  proof -
    from multi_edit_file_outcome [of ?ex "''/f''" ?two "()" 0] h1
    have "multi_edit_file ?ex ''/f'' ?two () =
            ((join [newline] (edit_lines 1 (edit_results ?ex ''/f'' ?two ())), False),
             edits_state ?ex ''/f'' ?two ())"
      by blast
    then show ?thesis unfolding r2 l2 by simp
  qed
  have b: "multi_edit_file ?ex ''/f'' ?four () =
      ((''Error on edit 3: Error editing file: sed: read error'', True), ())"
  proof -
    have k: "(2::nat) < length ?four" by simp
    from multi_edit_file_outcome [of ?ex "''/f''" ?four "()" 2] k h2 h3
    have "multi_edit_file ?ex ''/f'' ?four () =
            ((''Error on edit '' @ str_nat (2 + 1) @ '': ''
                @ fst (edit_results ?ex ''/f'' ?four () ! 2), True),
             edits_state ?ex ''/f'' (take (Suc 2) ?four) ())"
      by blast
    then show ?thesis unfolding n3 s3 by simp
  qed
  from r2 f1 f2 a h3 b show ?thesis by blast
qed


section \<open>Properties of \<open>get_metadata\<close>\<close>

lemma run_all_unfold:
  "run_all ex (cmd # cmds) st =
     (fst (ex cmd 30 st) # fst (run_all ex cmds (snd (ex cmd 30 st))),
      snd (run_all ex cmds (snd (ex cmd 30 st))))"
  by (simp add: run_command_def split_beta)

lemma length_run_all [simp]: "length (fst (run_all ex cmds st)) = length cmds"
  by (induction cmds arbitrary: st) (simp_all add: run_all_unfold del: run_all.simps(2))

lemma run_all_logged:
  "run_all (logged ex) cmds (log, st) =
     (fst (run_all ex cmds st), (log @ cmds, snd (run_all ex cmds st)))"
proof (induction cmds arbitrary: log st)
  case Nil
  show ?case by simp
next
  case (Cons cmd cmds)
  have l: "logged ex cmd 30 (log, st) = (fst (ex cmd 30 st), (log @ [cmd], snd (ex cmd 30 st)))"
    by (simp add: logged_def split_beta)
  show ?case
    by (simp add: run_all_unfold l Cons.IH del: run_all.simps(2))
qed

lemma get_metadata_loop_run_all:
  "get_metadata_loop ex paths acc st =
     (acc @ map2 metadata_block paths (map fst (fst (run_all ex (map stat_cmd paths) st))),
      snd (run_all ex (map stat_cmd paths) st))"
proof (induction paths arbitrary: acc st)
  case Nil
  show ?case by simp
next
  case (Cons path paths)
  have "get_metadata_loop ex (path # paths) acc st =
          get_metadata_loop ex paths
            (acc @ [metadata_block path (fst (fst (ex (stat_cmd path) 30 st)))])
            (snd (ex (stat_cmd path) 30 st))"
    by (simp add: run_command_def split_beta)
  then show ?case
    by (simp add: Cons.IH run_all_unfold del: run_all.simps(2) get_metadata_loop.simps(2))
qed

lemma get_metadata_run_all:
  "get_metadata ex paths st =
     ((join [newline, newline]
         (map2 metadata_block (take 10 paths)
            (map fst (fst (run_all ex (map stat_cmd (take 10 paths)) st)))), False),
      snd (run_all ex (map stat_cmd (take 10 paths)) st))"
  by (simp add: get_metadata_def get_metadata_loop_run_all)

text \<open>
  C7. \<open>get_metadata\<close> runs the probe command of each of the first
  \<open>min 10 (length paths)\<close> paths, in order, and no other command; its report is the
  blocks of these paths joined by two newlines, one block per path, computed from the
  output of that path's command; the error flag is unset for every input.
\<close>

theorem get_metadata_first_ten:
  "get_metadata ex paths st =
     ((join [newline, newline]
         (map2 metadata_block (take 10 paths)
            (map fst (fst (run_all ex (map stat_cmd (take 10 paths)) st)))), False),
      snd (run_all ex (map stat_cmd (take 10 paths)) st))
   \<and> fst (snd (get_metadata (logged ex) paths (log, st))) = log @ map stat_cmd (take 10 paths)
   \<and> length (map stat_cmd (take 10 paths)) = min 10 (length paths)
   \<and> length (fst (run_all ex (map stat_cmd (take 10 paths)) st)) = min 10 (length paths)
   \<and> snd (fst (get_metadata ex paths st)) = False"
  by (simp add: get_metadata_run_all run_all_logged min.commute)


lemma length_split_ws: "length (split_ws m s) \<le> Suc m"
  by (induction m arbitrary: s) (simp_all add: Let_def)

lemma split_ws_nonempty: "f \<in> set (split_ws m s) \<Longrightarrow> f \<noteq> []"
proof (induction m arbitrary: s)
  case 0
  then show ?case by (auto simp add: Let_def split: if_splits)
next
  case (Suc m)
  let ?r = "dropWhile isspace s"
  from Suc.prems have ne: "?r \<noteq> []" by (auto simp add: Let_def split: if_splits)
  then have "\<not> isspace (hd ?r)" by (metis hd_dropWhile)
  with ne have "takeWhile (\<lambda>c. \<not> isspace c) ?r \<noteq> []"
    by (cases ?r) auto
  with Suc show ?case by (auto simp add: Let_def split: if_splits)
qed

lemma split_ws_no_space:
  "i < length (split_ws m s) \<Longrightarrow> i < m \<Longrightarrow> c \<in> set (split_ws m s ! i) \<Longrightarrow> \<not> isspace c"
proof (induction m arbitrary: s i)
  case 0
  then show ?case by simp
next
  case (Suc m)
  let ?r = "dropWhile isspace s"
  from Suc.prems(1) have ne: "?r \<noteq> []" by (auto simp add: Let_def split: if_splits)
  then have eq: "split_ws (Suc m) s =
      takeWhile (\<lambda>c. \<not> isspace c) ?r # split_ws m (dropWhile (\<lambda>c. \<not> isspace c) ?r)"
    by (simp add: Let_def)
  show ?case
  proof (cases i)
    case 0
    with Suc.prems(3) have "c \<in> set (takeWhile (\<lambda>c. \<not> isspace c) ?r)"
      unfolding eq by simp
    then show ?thesis by (auto dest: set_takeWhileD)
  next
    case (Suc j)
    from Suc.prems Suc have "j < length (split_ws m (dropWhile (\<lambda>c. \<not> isspace c) ?r))"
      and "j < m" and "c \<in> set (split_ws m (dropWhile (\<lambda>c. \<not> isspace c) ?r) ! j)"
      unfolding eq by simp_all
    then show ?thesis by (rule Suc.IH)
  qed
qed

lemma metadata_block_unable:
  "\<not> contains ''not_found'' out \<Longrightarrow> length (split_ws 4 (strip out)) < 5 \<Longrightarrow>
   metadata_block p out = p @ '': Unable to get metadata''"
  by (simp add: metadata_block_def Let_def)

lemma metadata_block_fields_eq:
  "\<not> contains ''not_found'' out \<Longrightarrow>
   split_ws 4 (strip out) = [sz, mtime, owner, perms, ftype] \<Longrightarrow>
   metadata_block p out =
     p @ '':'' @ [newline] @ ''  Size: '' @ sz @ '' bytes'' @ [newline]
       @ ''  Type: '' @ ftype @ [newline]
       @ ''  Owner: '' @ owner @ [newline]
       @ ''  Permissions: '' @ perms"
  by (simp add: metadata_block_def Let_def)

text \<open>
  C8. An output without the \<open>not_found\<close> sentinel is stripped and split into at most
  five fields: non-empty, the first four free of whitespace, the fifth the rest of the
  text. With five fields the block reports size, type (the fifth field), owner and
  permissions; with fewer the block is \<open>path: Unable to get metadata\<close>. Either way the
  block is one entry of the report, which has a block for each of the first
  \<open>min 10 (length paths)\<close> paths.
\<close>

theorem metadata_block_parse:
  "length (split_ws 4 (strip out)) \<le> 5
   \<and> (\<forall>i < length (split_ws 4 (strip out)).
         split_ws 4 (strip out) ! i \<noteq> []
         \<and> (i < 4 \<longrightarrow> (\<forall>c \<in> set (split_ws 4 (strip out) ! i). \<not> isspace c)))
   \<and> (\<not> contains ''not_found'' out \<and> length (split_ws 4 (strip out)) < 5 \<longrightarrow>
        metadata_block p out = p @ '': Unable to get metadata'')
   \<and> (\<not> contains ''not_found'' out
        \<and> split_ws 4 (strip out) = [sz, mtime, owner, perms, ftype] \<longrightarrow>
        metadata_block p out =
          p @ '':'' @ [newline] @ ''  Size: '' @ sz @ '' bytes'' @ [newline]
            @ ''  Type: '' @ ftype @ [newline]
            @ ''  Owner: '' @ owner @ [newline]
            @ ''  Permissions: '' @ perms)
   \<and> fst (fst (get_metadata ex paths st)) =
        join [newline, newline]
          (map2 metadata_block (take 10 paths)
             (map fst (fst (run_all ex (map stat_cmd (take 10 paths)) st))))
   \<and> length (map2 metadata_block (take 10 paths)
               (map fst (fst (run_all ex (map stat_cmd (take 10 paths)) st))))
        = min 10 (length paths)"
proof -
  have a: "length (split_ws 4 (strip out)) \<le> 5"
    using length_split_ws [of 4 "strip out"] by simp
  have b: "\<forall>i < length (split_ws 4 (strip out)).
         split_ws 4 (strip out) ! i \<noteq> []
         \<and> (i < 4 \<longrightarrow> (\<forall>c \<in> set (split_ws 4 (strip out) ! i). \<not> isspace c))"
    using split_ws_nonempty [of _ 4 "strip out"] split_ws_no_space [of _ 4 "strip out"]
    by (meson nth_mem)
  have c: "length (map2 metadata_block (take 10 paths)
               (map fst (fst (run_all ex (map stat_cmd (take 10 paths)) st))))
        = min 10 (length paths)"
    by (simp add: min.commute)
  show ?thesis
    using a b c metadata_block_unable [of out p]
      metadata_block_fields_eq [of out sz mtime owner perms ftype p]
    by (simp add: get_metadata_run_all)
qed


theorem get_metadata_first_ten_witness:
  "fst (snd (get_metadata (logged (always (''not_found'', 0)))
               [''a'', ''b'', ''c'', ''d'', ''e'', ''f'', ''g'', ''h'', ''i'', ''j'', ''k'', ''l'']
               ([], ())))
     = map stat_cmd [''a'', ''b'', ''c'', ''d'', ''e'', ''f'', ''g'', ''h'', ''i'', ''j'']
   \<and> fst (get_metadata (always (''not_found'', 0))
            [''a'', ''b'', ''c'', ''d'', ''e'', ''f'', ''g'', ''h'', ''i'', ''j'', ''k'', ''l''] ())
     = (join [newline, newline]
          [''a: Not found'', ''b: Not found'', ''c: Not found'', ''d: Not found'',
           ''e: Not found'', ''f: Not found'', ''g: Not found'', ''h: Not found'',
           ''i: Not found'', ''j: Not found''], False)"
proof -
  let ?ex = "always (''not_found'', 0)"
  let ?paths = "[''a'', ''b'', ''c'', ''d'', ''e'', ''f'', ''g'', ''h'', ''i'', ''j'', ''k'', ''l'']"
  let ?ten = "[''a'', ''b'', ''c'', ''d'', ''e'', ''f'', ''g'', ''h'', ''i'', ''j'']"
  have t: "take 10 ?paths = ?ten"
    by simp
  have o: "map fst (fst (run_all ?ex (map stat_cmd ?ten) ())) = replicate 10 ''not_found''"
    by (simp add: run_all_unfold always_def numeral_eq_Suc del: run_all.simps(2))
  have b: "\<And>p. metadata_block p ''not_found'' = p @ '': Not found''"
    by (simp add: metadata_block_def)
  have m: "map2 metadata_block ?ten (replicate 10 ''not_found'')
           = [''a: Not found'', ''b: Not found'', ''c: Not found'', ''d: Not found'',
              ''e: Not found'', ''f: Not found'', ''g: Not found'', ''h: Not found'',
              ''i: Not found'', ''j: Not found'']"
    by (simp add: b numeral_eq_Suc)
  note th = get_metadata_first_ten [of ?ex ?paths "()" "[]"]
  from th have g1: "get_metadata ?ex ?paths () =
          ((join [newline, newline]
             (map2 metadata_block (take 10 ?paths)
                (map fst (fst (run_all ?ex (map stat_cmd (take 10 ?paths)) ())))), False),
           snd (run_all ?ex (map stat_cmd (take 10 ?paths)) ()))"
    by (rule conjunct1)
  from th have g2: "fst (snd (get_metadata (logged ?ex) ?paths ([], ())))
                      = [] @ map stat_cmd (take 10 ?paths)"
    by (rule conjunct2 [THEN conjunct1])
  from g1 have g1': "fst (get_metadata ?ex ?paths ()) =
          (join [newline, newline]
             [''a: Not found'', ''b: Not found'', ''c: Not found'', ''d: Not found'',
              ''e: Not found'', ''f: Not found'', ''g: Not found'', ''h: Not found'',
              ''i: Not found'', ''j: Not found''], False)"
    unfolding t o m by (rule arg_cong [where f = fst, THEN trans]) (rule fst_conv)
  from g2 have g2': "fst (snd (get_metadata (logged ?ex) ?paths ([], ()))) = map stat_cmd ?ten"
    unfolding t by (simp only: append_Nil)
  from g2' g1' show ?thesis by (rule conjI)
qed

theorem metadata_block_parse_witness:
  "split_ws 4 (strip ''12 34'') = [''12'', ''34'']
   \<and> metadata_block ''/b'' ''12 34'' = ''/b: Unable to get metadata''
   \<and> split_ws 4 (strip (''1024 1700000000 root:root 644'' @ [newline] @ '' ASCII text'' @ [newline]))
       = [''1024'', ''1700000000'', ''root:root'', ''644'', ''ASCII text'']
   \<and> metadata_block ''/a'' (''1024 1700000000 root:root 644'' @ [newline] @ '' ASCII text'' @ [newline])
       = ''/a:'' @ [newline] @ ''  Size: 1024 bytes'' @ [newline] @ ''  Type: ASCII text'' @ [newline]
           @ ''  Owner: root:root'' @ [newline] @ ''  Permissions: 644''
   \<and> fst (fst (get_metadata
                 (answering [(''/b'', (''12 34'', 0)),
                             (''/a'', (''1024 1700000000 root:root 644'' @ [newline]
                                         @ '' ASCII text'' @ [newline], 0))])
                 [''/b'', ''/a''] ()))
       = ''/b: Unable to get metadata'' @ [newline, newline]
           @ ''/a:'' @ [newline] @ ''  Size: 1024 bytes'' @ [newline] @ ''  Type: ASCII text''
           @ [newline] @ ''  Owner: root:root'' @ [newline] @ ''  Permissions: 644''"
proof -
  let ?good = "''1024 1700000000 root:root 644'' @ [newline] @ '' ASCII text'' @ [newline]"
  let ?ex = "answering [(''/b'', (''12 34'', 0)), (''/a'', (?good, 0))]"
  have s1: "split_ws 4 (strip ''12 34'') = [''12'', ''34'']"
    by code_simp
  have s2: "split_ws 4 (strip ?good) = [''1024'', ''1700000000'', ''root:root'', ''644'', ''ASCII text'']"
    by code_simp
  have n1: "\<not> contains ''not_found'' ''12 34''" by code_simp
  have n2: "\<not> contains ''not_found'' ?good" by code_simp
  have l1: "length (split_ws 4 (strip ''12 34'')) < 5"
    unfolding s1 by simp
  note th1 = metadata_block_parse [where out = "''12 34''" and p = "''/b''" and ex = ?ex
      and paths = "[''/b'', ''/a'']" and st = "()" and sz = "''1024''"
      and mtime = "''1700000000''" and owner = "''root:root''" and perms = "''644''"
      and ftype = "''ASCII text''"]
  note th2 = metadata_block_parse [where out = ?good and p = "''/a''" and ex = ?ex
      and paths = "[''/b'', ''/a'']" and st = "()" and sz = "''1024''"
      and mtime = "''1700000000''" and owner = "''root:root''" and perms = "''644''"
      and ftype = "''ASCII text''"]
  have b1: "metadata_block ''/b'' ''12 34'' = ''/b: Unable to get metadata''"
    using th1 [THEN conjunct2, THEN conjunct2, THEN conjunct1, THEN mp, OF conjI [OF n1 l1]]
    by simp
  have b2: "metadata_block ''/a'' ?good
       = ''/a:'' @ [newline] @ ''  Size: 1024 bytes'' @ [newline] @ ''  Type: ASCII text'' @ [newline]
           @ ''  Owner: root:root'' @ [newline] @ ''  Permissions: 644''"
    using th2 [THEN conjunct2, THEN conjunct2, THEN conjunct2, THEN conjunct1, THEN mp,
               OF conjI [OF n2 s2]]
    by simp
  have rhs: "join [newline, newline]
          (map2 metadata_block (take 10 [''/b'', ''/a''])
             (map fst (fst (run_all ?ex (map stat_cmd (take 10 [''/b'', ''/a''])) ()))))
       = ''/b: Unable to get metadata'' @ [newline, newline]
           @ ''/a:'' @ [newline] @ ''  Size: 1024 bytes'' @ [newline] @ ''  Type: ASCII text''
           @ [newline] @ ''  Owner: root:root'' @ [newline] @ ''  Permissions: 644''"
    by code_simp
  have g: "fst (fst (get_metadata ?ex [''/b'', ''/a''] ()))
       = ''/b: Unable to get metadata'' @ [newline, newline]
           @ ''/a:'' @ [newline] @ ''  Size: 1024 bytes'' @ [newline] @ ''  Type: ASCII text''
           @ [newline] @ ''  Owner: root:root'' @ [newline] @ ''  Permissions: 644''"
    using th2 [THEN conjunct2, THEN conjunct2, THEN conjunct2, THEN conjunct2, THEN conjunct1]
    unfolding rhs .
  from s1 b1 s2 b2 g show ?thesis by (intro conjI)
qed


section \<open>Properties of \<open>escape_for_sed\<close>\<close>

lemma replace_single:
  "replace [c] new s = concat (map (\<lambda>x. if x = c then new else [x]) s)"
  by (induction s) auto

lemma escape_for_sed_Nil: "escape_for_sed [] = []"
  by (simp add: escape_for_sed_def replace_single)

lemma escape_for_sed_Cons:
  "escape_for_sed (x # xs) =
     (if x \<in> set sed_specials then [backslash, x] else [x]) @ escape_for_sed xs"
  by (simp add: escape_for_sed_def replace_single sed_specials_def backslash_def Let_def)

lemma escape_for_sed_chars:
  "escape_for_sed s =
     concat (map (\<lambda>c. if c \<in> set sed_specials then [backslash, c] else [c]) s)"
  by (induction s) (simp_all add: escape_for_sed_Nil escape_for_sed_Cons)

lemma escape_for_sed_sequence:
  "escape_for_sed s = foldl (\<lambda>t c. replace [c] [backslash, c] t) s sed_specials"
  by (simp add: escape_for_sed_def sed_specials_def Let_def)

lemma backslash_special: "backslash \<in> set sed_specials"
  by (simp add: sed_specials_def)

lemma edit_file_logged_commands:
  assumes "fst (ex (probe_cmd p) 30 st) = (out, 0)"
      and "\<not> contains ''No such file or directory'' out"
  shows "fst (snd (edit_file (logged ex) p old_string new_string replace_all (log, st))) =
           log @ [probe_cmd p, backup_cmd p,
                  sed_cmd p (escape_for_sed old_string) (escape_for_sed new_string) replace_all,
                  cleanup_cmd p]"
  using assms
  by (simp add: edit_file_def run_command_def logged_def Let_def split_beta)


section \<open>The base64 transport\<close>
























section \<open>Markers in numbered text\<close>







lemma str_nat_digits: "set (str_nat n) \<subseteq> set ''0123456789''"
proof (induction n rule: str_nat.induct)
  case (1 n)
  have d: "k < 10 \<Longrightarrow> ''0123456789'' ! k \<in> set ''0123456789''" for k :: nat
    by (rule nth_mem) simp
  show ?case
  proof (cases "n < 10")
    case True
    then show ?thesis using d [of n] by (subst str_nat.simps) simp
  next
    case False
    have "n mod 10 < 10" by simp
    with False 1 d [of "n mod 10"] show ?thesis by (subst str_nat.simps) simp
  qed
qed

lemma str_nat_nonempty: "str_nat n \<noteq> []"
  by (subst str_nat.simps) simp






section \<open>Reading a range of lines\<close>

lemma digit_value_nth: "k < 10 \<Longrightarrow> digit_value (''0123456789'' ! k) = k"
proof -
  assume "k < 10"
  then have "k \<in> set [0..<10]" by simp
  moreover have "\<forall>j \<in> set [0..<10]. digit_value (''0123456789'' ! j) = j" by code_simp
  ultimately show ?thesis by blast
qed

lemma parse_nat_snoc: "parse_nat (ds @ [d]) = 10 * parse_nat ds + digit_value d"
  by (simp add: parse_nat_def)

lemma parse_nat_str_nat: "parse_nat (str_nat n) = n"
proof (induction n rule: str_nat.induct)
  case (1 n)
  show ?case
  proof (cases "n < 10")
    case True
    then show ?thesis
      by (subst str_nat.simps) (simp add: parse_nat_def digit_value_nth)
  next
    case False
    with 1 have "parse_nat (str_nat (n div 10)) = n div 10" by simp
    with False show ?thesis
      by (subst str_nat.simps) (simp add: parse_nat_snoc digit_value_nth)
  qed
qed

lemma str_nat_is_digit: "c \<in> set (str_nat n) \<Longrightarrow> is_digit c"
  unfolding is_digit_def by (rule subsetD [OF str_nat_digits])

lemma takeWhile_str_nat:
  "\<not> is_digit c \<Longrightarrow> takeWhile is_digit (str_nat n @ c # rest) = str_nat n"
  by (simp add: takeWhile_append2 str_nat_is_digit)

lemma dropWhile_str_nat:
  "\<not> is_digit c \<Longrightarrow> dropWhile is_digit (str_nat n @ c # rest) = c # rest"
  by (simp add: dropWhile_append2 str_nat_is_digit)

lemma space_not_digit: "\<not> is_digit (CHR '' '')"
  by (simp add: is_digit_def)


lemma strip_prefix_append: "strip_prefix xs (xs @ ys) = Some ys"
  by (induction xs) auto

section \<open>Command lines in the shell\<close>

lemma unterminated_inside: "sq \<notin> set w \<Longrightarrow> unterminated True (w @ sq # s) = unterminated False s"
  by (induction w) auto

lemma unterminated_word:
  "sq \<notin> set w \<Longrightarrow> unterminated False ([sq] @ w @ [sq] @ s) = unterminated False s"
  using unterminated_inside [of w s] by simp


lemma unterminated_digits:
  "\<forall>c \<in> set ds. is_digit c \<Longrightarrow> unterminated False (ds @ s) = unterminated False s"
  by (induction ds) (auto simp add: is_digit_def sq_def backslash_def newline_def)

lemma unterminated_str_nat: "unterminated False (str_nat n @ s) = unterminated False s"
  by (rule unterminated_digits) (simp add: str_nat_is_digit)


lemma unterminated_lits:
  "unterminated False (''mkdir -p '' @ s) = unterminated False s"
  "unterminated False (''echo '' @ s) = unterminated False s"
  "unterminated False ('' | base64 -d > '' @ s) = unterminated False s"
  "unterminated False (''nl -ba '' @ s) = unterminated False s"
  "unterminated False (''head -n '' @ s) = unterminated False s"
  "unterminated False (''tail -n +'' @ s) = unterminated False s"
  "unterminated False ('' 2>&1 | head -n '' @ s) = unterminated False s"
  "unterminated False ('' | nl -ba -v '' @ s) = unterminated False s"
  "unterminated False (''cp '' @ s) = unterminated False s"
  "unterminated False (''sed -i '' @ s) = unterminated False s"
  "unterminated False (''rm -f '' @ s) = unterminated False s"
  "unterminated False ('' '' @ s) = unterminated False s"
  "unterminated False '' 2>&1'' = Some False"
  "unterminated False '' 2>&1 | nl -ba'' = Some False"
  by (simp_all add: sq_def backslash_def newline_def)

lemma match_lit: "match_parts (Lit t # ps) (t @ s) = match_parts ps s"
  by (simp add: strip_prefix_append)

lemma match_lit_end: "match_parts [Lit t] t = Some []"
  using match_lit [of t "[]" "[]"] by simp

lemma match_word:
  "sq \<notin> set w \<Longrightarrow>
   match_parts (Quoted # ps) ([sq] @ w @ [sq] @ s) = map_option ((#) w) (match_parts ps s)"
proof -
  assume w: "sq \<notin> set w"
  have d: "dropWhile (\<lambda>x. x \<noteq> sq) (w @ sq # s) = sq # s"
    using w by (induction w) auto
  have t: "takeWhile (\<lambda>x. x \<noteq> sq) (w @ sq # s) = w"
    using w by (induction w) auto
  show ?thesis by (simp add: d t)
qed


lemma match_number:
  "\<not> is_digit c \<Longrightarrow>
   match_parts (Number # ps) (str_nat n @ c # s)
     = map_option ((#) (str_nat n)) (match_parts ps (c # s))"
  by (simp add: takeWhile_str_nat dropWhile_str_nat str_nat_nonempty)

lemma match_number_space:
  "match_parts (Number # ps) (str_nat n @ '' '' @ s)
     = map_option ((#) (str_nat n)) (match_parts ps ('' '' @ s))"
  using match_number [of "CHR '' ''" ps n s] by (simp add: is_digit_def)



section \<open>The commands of the file manager on the remote side\<close>

lemma plain_path_bak: "plain_path p \<Longrightarrow> plain_path (p @ ''.bak'')"
proof -
  assume p: "plain_path p"
  then have ne: "p \<noteq> []" by (simp add: plain_path_def operand_def holds_file_def)
  have lc: "last_component (p @ ''.bak'') = last_component p @ ''.bak''"
    by (simp add: last_component_def)
  have "length (last_component (p @ ''.bak'')) \<ge> 4" unfolding lc by simp
  then have "last_component (p @ ''.bak'') \<noteq> ''.'' \<and> last_component (p @ ''.bak'') \<noteq> ''..''"
    by auto
  with p ne show ?thesis
    by (simp add: plain_path_def operand_def holds_file_def sq_def)
qed

lemma bak_differs: "p @ ''.bak'' \<noteq> p"
  by simp










lemma shell_read_limit:
  assumes "plain_path p" and "st p = Some text"
  shows "shell (read_cmd p None (Some (int lim))) st
           = Some ((nl_ba 1 (take lim (text_lines text)), 0), st)"
proof -
  let ?cmd = "''head -n '' @ str_nat lim @ '' '' @ [sq] @ p @ [sq] @ '' 2>&1 | nl -ba''"
  from assms have q: "sq \<notin> set p" and o: "operand p"
    by (simp_all add: plain_path_def)
  have c: "read_cmd p None (Some (int lim)) = ?cmd"
    by (simp add: read_cmd_def str_int_def)
  have u: "unterminated False ?cmd = Some False"
    by (simp only: unterminated_lits unterminated_word [OF q] unterminated_str_nat)
  have m1: "match_parts (template Mkdir) ?cmd = None" by simp
  have m2: "match_parts (template Write) ?cmd = None" by simp
  have m3: "match_parts (template Nl) ?cmd = None" by simp
  have m4: "match_parts (template Head) ?cmd = Some [str_nat lim, p]"
    unfolding template.simps
    by (simp only: match_lit match_word [OF q] match_number_space match_lit_end option.map)
  have d: "dispatch [Mkdir, Write, Nl, Head, Tail, Cp_probe, Cp, Sed, Rm] ?cmd st
             = run Head [str_nat lim, p] st"
    by (simp only: dispatch.simps m1 m2 m3 m4 option.case)
  show ?thesis
    unfolding c shell_def u d using o assms(2) by (simp add: run_head_def parse_nat_str_nat)
qed

section \<open>Numbered output\<close>










section \<open>Reading on the remote side\<close>




section \<open>Write, then read\<close>






section \<open>Reading a range\<close>





end
